theory Spec2Isabelle
  imports Main "HOL-Library.Word"
begin

unbundle bit_operations_syntax

section \<open>Data model of ext4\_crypt.cpp\<close>

text \<open>
  A \<^verbatim>\<open>char\<close> of the C source is one byte. Whether plain \<^verbatim>\<open>char\<close> is signed
  depends on the target ABI (signed on x86, unsigned on ARM); the functions that promote a
  \<^verbatim>\<open>char\<close> to \<^verbatim>\<open>int\<close> take the signedness as an argument.
\<close>

type_synonym byte = "8 word"
type_synonym path = string

definition EXT4_KEY_DESCRIPTOR_SIZE :: nat where
  "EXT4_KEY_DESCRIPTOR_SIZE = 8"

definition EXT4_KEY_DESCRIPTOR_SIZE_HEX :: nat where
  "EXT4_KEY_DESCRIPTOR_SIZE_HEX = 17"

definition EXT4_ENCRYPTION_MODE_AES_256_XTS :: "32 word" where
  "EXT4_ENCRYPTION_MODE_AES_256_XTS = 1"

definition EXT4_ENCRYPTION_MODE_AES_256_CTS :: "32 word" where
  "EXT4_ENCRYPTION_MODE_AES_256_CTS = 4"

definition HEX_LOOKUP :: string where
  "HEX_LOOKUP = ''0123456789abcdef''"

text \<open>
  \<^verbatim>\<open>struct ext4_encryption_policy\<close>: four \<^verbatim>\<open>char\<close> fields and the descriptor array
  \<^verbatim>\<open>char master_key_descriptor[EXT4_KEY_DESCRIPTOR_SIZE]\<close>, here a list of bytes.
\<close>

record ext4_encryption_policy =
  version :: byte
  contents_encryption_mode :: byte
  filenames_encryption_mode :: byte
  flags :: byte
  master_key_descriptor :: "byte list"

text \<open>
  The integer promotion of a plain \<^verbatim>\<open>char\<close> to the 32-bit \<^verbatim>\<open>int\<close> of C: sign
  extension where \<^verbatim>\<open>char\<close> is signed, zero extension where it is not.
\<close>

definition char_promote :: "bool \<Rightarrow> byte \<Rightarrow> 32 word" where
  "char_promote sc c = (if sc then scast c else ucast c)"

text \<open>An assignment of an \<^verbatim>\<open>int\<close> constant to a \<^verbatim>\<open>char\<close> field keeps the low byte.\<close>

definition int_to_char :: "32 word \<Rightarrow> byte" where
  "int_to_char n = ucast n"

section \<open>policy\_to\_hex\<close>

text \<open>
  \<^verbatim>\<open>for (size_t i = 0, j = 0; i < EXT4_KEY_DESCRIPTOR_SIZE; i++) {
      hex[j++] = HEX_LOOKUP[(policy[i] & 0xF0) >> 4];
      hex[j++] = HEX_LOOKUP[policy[i] & 0x0F]; }\<close>
  The loop is a recursion on \<open>i\<close> and \<open>j\<close>; the buffer \<open>hex\<close> is updated by index.
\<close>

function policy_to_hex_loop :: "bool \<Rightarrow> byte list \<Rightarrow> nat \<Rightarrow> nat \<Rightarrow> char list \<Rightarrow> char list" where
  "policy_to_hex_loop sc policy i j hex =
     (if i < EXT4_KEY_DESCRIPTOR_SIZE then
        policy_to_hex_loop sc policy (i + 1) (j + 2)
          (hex[j := HEX_LOOKUP ! unat (drop_bit 4 (char_promote sc (policy ! i) AND 0xF0)),
               j + 1 := HEX_LOOKUP ! unat (char_promote sc (policy ! i) AND 0x0F)])
      else hex)"
  by pat_completeness auto
termination
  by (relation "measure (\<lambda>(sc, policy, i, j, hex). EXT4_KEY_DESCRIPTOR_SIZE - i)") auto

declare policy_to_hex_loop.simps [simp del]

text \<open>
  The function reads \<open>policy[0..7]\<close> and writes \<open>hex[0..16]\<close>. A shorter array on
  either side is an access out of bounds, undefined in C: the model returns \<open>None\<close>.
\<close>

definition policy_to_hex :: "bool \<Rightarrow> byte list \<Rightarrow> char list \<Rightarrow> char list option" where
  "policy_to_hex sc policy hex =
     (if length policy < EXT4_KEY_DESCRIPTOR_SIZE \<or> length hex < EXT4_KEY_DESCRIPTOR_SIZE_HEX
      then None
      else Some ((policy_to_hex_loop sc policy 0 0 hex)
                   [EXT4_KEY_DESCRIPTOR_SIZE_HEX - 1 := CHR 0x00]))"


text \<open>
  The encoding as the specification words it, to compare \<open>policy_to_hex\<close> with: a
  lowercase hexadecimal digit for a value below 16 (ASCII \<open>0\<close> is 48, ASCII \<open>a\<close> is 97),
  two digits for each byte, the high nibble first, the bytes in order.
\<close>

definition spec_hex_digit :: "nat \<Rightarrow> char" where
  "spec_hex_digit n = (if n < 10 then char_of (48 + n) else char_of (87 + n))"

definition spec_hex_of_byte :: "byte \<Rightarrow> string" where
  "spec_hex_of_byte b = [spec_hex_digit (unat b div 16), spec_hex_digit (unat b mod 16)]"

definition spec_hex_string :: "byte list \<Rightarrow> string" where
  "spec_hex_string bs = concat (map spec_hex_of_byte bs)"

text \<open>What \<^verbatim>\<open>operator<<\<close> prints of a \<^verbatim>\<open>char\<close> buffer: the characters before the first NUL.\<close>

definition c_str :: "char list \<Rightarrow> string" where
  "c_str buf = takeWhile (\<lambda>c. c \<noteq> CHR 0x00) buf"

section \<open>The environment: file system, kernel and log\<close>

text \<open>
  The source reaches the file system and the kernel through \<^verbatim>\<open>access\<close>, \<^verbatim>\<open>open\<close>,
  \<^verbatim>\<open>close\<close>, \<^verbatim>\<open>opendir\<close>, \<^verbatim>\<open>readdir\<close>, \<^verbatim>\<open>closedir\<close> and \<^verbatim>\<open>ioctl\<close>, and
  writes log lines. None of these is code of the repository. They are modelled as
  operations on an explicit world; what each call answers is a field of the world, so
  that the theorems hold for every answer the environment can give.
\<close>

datatype severity = ERROR | WARNING | INFO

text \<open>One constructor for each log line of the source, with the values it prints.\<close>

datatype log_msg =
    Policy_wrong_length nat
  | Failed_to_access_directory path
  | Failed_to_open_directory path
  | Can_only_set_policy_on_an_empty_directory path
  | Failed_to_set_encryption_policy_for path
  | Policy_for_set_to path string
  | Failed_to_get_encryption_policy_for path
  | Failed_to_find_matching_encryption_policy_for path
  | Found_policy_which_matches string path
  | Found_policy_which_doesnt_match string path string

text \<open>
  Every call the source makes is recorded, in order, in the trace of the world.
  \<open>Log\<close> is \<^verbatim>\<open>LOG(severity)\<close>, \<open>PLog\<close> is \<^verbatim>\<open>PLOG(severity)\<close>, which appends the
  text of \<^verbatim>\<open>errno\<close>.
\<close>

datatype event =
    Access path
  | Open path
  | Close int
  | OpenDir path
  | CloseDir nat
  | IoctlGet int
  | IoctlSet int ext4_encryption_policy
  | Log severity log_msg
  | PLog severity log_msg

fun is_set_ioctl :: "event \<Rightarrow> bool" where
  "is_set_ioctl (IoctlSet fd eep) = True"
| "is_set_ioctl e = False"

fun is_get_ioctl :: "event \<Rightarrow> bool" where
  "is_get_ioctl (IoctlGet fd) = True"
| "is_get_ioctl e = False"

text \<open>
  What the environment holds for one path:
  \<^item> \<open>can_write\<close>: \<^verbatim>\<open>access(path, W_OK)\<close> answers 0;
  \<^item> \<open>can_open\<close>: \<^verbatim>\<open>open(path, O_DIRECTORY | O_NOFOLLOW | O_CLOEXEC)\<close> answers a descriptor;
  \<^item> \<open>can_list\<close>: \<^verbatim>\<open>opendir(path)\<close> answers a stream;
  \<^item> \<open>listing\<close>: the names \<^verbatim>\<open>readdir\<close> answers, in order;
  \<^item> \<open>stored\<close>: the record the kernel answers to the get request, \<open>None\<close> when the
    request fails.
\<close>

record dir_state =
  can_write :: bool
  can_open :: bool
  can_list :: bool
  listing :: "string list"
  stored :: "ext4_encryption_policy option"

text \<open>
  The world: the paths that exist, the kernel's decision on a set request (a function of
  the directory's state and of the record written), the signedness of plain \<^verbatim>\<open>char\<close>,
  the open file descriptors with the path each refers to, the open directory streams,
  and the trace.
\<close>

record world =
  dirs :: "path \<rightharpoonup> dir_state"
  kernel_accepts :: "dir_state \<Rightarrow> ext4_encryption_policy \<Rightarrow> bool"
  char_signed :: bool
  fd_table :: "(int \<times> path) list"
  dir_streams :: "nat list"
  trace :: "event list"

definition record_event :: "event \<Rightarrow> world \<Rightarrow> world" where
  "record_event e w = w\<lparr>trace := trace w @ [e]\<rparr>"

definition LOG :: "severity \<Rightarrow> log_msg \<Rightarrow> world \<Rightarrow> world" where
  "LOG s m w = record_event (Log s m) w"

definition PLOG :: "severity \<Rightarrow> log_msg \<Rightarrow> world \<Rightarrow> world" where
  "PLOG s m w = record_event (PLog s m) w"

text \<open>\<^verbatim>\<open>access(directory, W_OK)\<close>: 0 when permitted, -1 otherwise (also for a missing path).\<close>

definition sys_access :: "path \<Rightarrow> world \<Rightarrow> int \<times> world" where
  "sys_access p w =
     (case dirs w p of
        None \<Rightarrow> (- 1, record_event (Access p) w)
      | Some d \<Rightarrow> (if can_write d then 0 else - 1, record_event (Access p) w))"

text \<open>A descriptor that is not open: one above every open descriptor and above 2.\<close>

definition fresh_fd :: "(int \<times> path) list \<Rightarrow> int" where
  "fresh_fd tab = Max (set (2 # map fst tab)) + 1"

definition sys_open :: "path \<Rightarrow> world \<Rightarrow> int \<times> world" where
  "sys_open p w =
     (case dirs w p of
        None \<Rightarrow> (- 1, record_event (Open p) w)
      | Some d \<Rightarrow>
          if can_open d then
            (fresh_fd (fd_table w),
             record_event (Open p) (w\<lparr>fd_table := (fresh_fd (fd_table w), p) # fd_table w\<rparr>))
          else (- 1, record_event (Open p) w))"

definition sys_close :: "int \<Rightarrow> world \<Rightarrow> world" where
  "sys_close fd w =
     record_event (Close fd) (w\<lparr>fd_table := filter (\<lambda>e. fst e \<noteq> fd) (fd_table w)\<rparr>)"

text \<open>
  \<^verbatim>\<open>opendir\<close> answers a stream, here its handle and the names it will deliver, or NULL.
  \<^verbatim>\<open>readdir\<close> takes the next name of the stream; \<^verbatim>\<open>closedir\<close> releases the handle.
\<close>

definition fresh_stream :: "nat list \<Rightarrow> nat" where
  "fresh_stream hs = Suc (Max (set (0 # hs)))"

definition sys_opendir :: "path \<Rightarrow> world \<Rightarrow> (nat \<times> string list) option \<times> world" where
  "sys_opendir p w =
     (case dirs w p of
        None \<Rightarrow> (None, record_event (OpenDir p) w)
      | Some d \<Rightarrow>
          if can_list d then
            (Some (fresh_stream (dir_streams w), listing d),
             record_event (OpenDir p)
               (w\<lparr>dir_streams := fresh_stream (dir_streams w) # dir_streams w\<rparr>))
          else (None, record_event (OpenDir p) w))"

definition sys_closedir :: "nat \<Rightarrow> world \<Rightarrow> world" where
  "sys_closedir h w =
     record_event (CloseDir h) (w\<lparr>dir_streams := filter (\<lambda>k. k \<noteq> h) (dir_streams w)\<rparr>)"

text \<open>
  The get request on a descriptor: the kernel fills the caller's record with the stored
  one and answers 0, or leaves it and answers -1 (no policy, or a descriptor that is not
  open).
\<close>

definition sys_ioctl_get ::
  "int \<Rightarrow> ext4_encryption_policy \<Rightarrow> world \<Rightarrow> int \<times> ext4_encryption_policy \<times> world" where
  "sys_ioctl_get fd eep w =
     (case map_of (fd_table w) fd of
        None \<Rightarrow> (- 1, eep, record_event (IoctlGet fd) w)
      | Some p \<Rightarrow>
          (case dirs w p of
             None \<Rightarrow> (- 1, eep, record_event (IoctlGet fd) w)
           | Some d \<Rightarrow>
               (case stored d of
                  None \<Rightarrow> (- 1, eep, record_event (IoctlGet fd) w)
                | Some k \<Rightarrow> (0, k, record_event (IoctlGet fd) w))))"

text \<open>
  The set request: the kernel decides; when it accepts, the record written is the one
  a later get request answers.
\<close>

definition sys_ioctl_set :: "int \<Rightarrow> ext4_encryption_policy \<Rightarrow> world \<Rightarrow> int \<times> world" where
  "sys_ioctl_set fd eep w =
     (case map_of (fd_table w) fd of
        None \<Rightarrow> (- 1, record_event (IoctlSet fd eep) w)
      | Some p \<Rightarrow>
          (case dirs w p of
             None \<Rightarrow> (- 1, record_event (IoctlSet fd eep) w)
           | Some d \<Rightarrow>
               if kernel_accepts w d eep then
                 (0, record_event (IoctlSet fd eep)
                       (w\<lparr>dirs := (dirs w)(p \<mapsto> d\<lparr>stored := Some eep\<rparr>)\<rparr>))
               else (- 1, record_event (IoctlSet fd eep) w)))"

section \<open>is\_dir\_empty\<close>

text \<open>
  \<^verbatim>\<open>while ((d = readdir(dir)) != NULL) {
      if (strcmp(d->d_name, "lost+found") == 0) { } else if (++n > 2) { break; } }\<close>
  The loop runs over the names the stream delivers; the result is the final \<open>n\<close>.
\<close>

fun is_dir_empty_loop :: "int \<Rightarrow> string list \<Rightarrow> int" where
  "is_dir_empty_loop n [] = n"
| "is_dir_empty_loop n (d_name # rest) =
     (if d_name = ''lost+found'' then is_dir_empty_loop n rest
      else if n + 1 > 2 then n + 1
      else is_dir_empty_loop (n + 1) rest)"

text \<open>
  The result of \<^verbatim>\<open>opendir\<close> is not checked: on NULL, \<^verbatim>\<open>readdir(NULL)\<close> is undefined
  behaviour, \<open>None\<close> here. Otherwise the stream is closed and \<^verbatim>\<open>n <= 2\<close> is returned
  as an \<^verbatim>\<open>int\<close>.
\<close>

definition is_dir_empty :: "path \<Rightarrow> world \<Rightarrow> (int \<times> world) option" where
  "is_dir_empty dirname w =
     (case sys_opendir dirname w of
        (None, w1) \<Rightarrow> None
      | (Some (h, names), w1) \<Rightarrow>
          Some (if is_dir_empty_loop 0 names \<le> 2 then 1 else 0, sys_closedir h w1))"

section \<open>e4crypt\_policy\_set, e4crypt\_policy\_get, e4crypt\_policy\_ensure\<close>

text \<open>
  The three entry points take the directory, the descriptor buffer \<open>policy\<close> (the bytes
  the pointer refers to) and \<open>policy_length\<close>, and return the \<^verbatim>\<open>int\<close> of the source
  (0 or -1) with the new world. \<^verbatim>\<open>memcpy\<close> of 8 bytes from or to a buffer shorter than
  8 bytes is undefined behaviour: \<open>None\<close>.
\<close>

definition e4crypt_policy_set :: "path \<Rightarrow> byte list \<Rightarrow> nat \<Rightarrow> world \<Rightarrow> (int \<times> world) option" where
  "e4crypt_policy_set directory policy policy_length w =
     (if policy_length \<noteq> EXT4_KEY_DESCRIPTOR_SIZE then
        Some (- 1, LOG ERROR (Policy_wrong_length policy_length) w)
      else case sys_access directory w of (rc, w1) \<Rightarrow>
        if rc \<noteq> 0 then Some (- 1, PLOG ERROR (Failed_to_access_directory directory) w1)
        else case sys_open directory w1 of (fd, w2) \<Rightarrow>
          if fd = - 1 then Some (- 1, PLOG ERROR (Failed_to_open_directory directory) w2)
          else (case is_dir_empty directory w2 of
            None \<Rightarrow> None
          | Some (no_entries, w3) \<Rightarrow>
              if no_entries = 0 then
                Some (- 1, LOG ERROR (Can_only_set_policy_on_an_empty_directory directory) w3)
              else if length policy < EXT4_KEY_DESCRIPTOR_SIZE then None
              else
                let eep = \<lparr>version = int_to_char 0,
                           contents_encryption_mode = int_to_char EXT4_ENCRYPTION_MODE_AES_256_XTS,
                           filenames_encryption_mode = int_to_char EXT4_ENCRYPTION_MODE_AES_256_CTS,
                           flags = int_to_char 0,
                           master_key_descriptor = take EXT4_KEY_DESCRIPTOR_SIZE policy\<rparr>
                in case sys_ioctl_set fd eep w3 of (rc, w4) \<Rightarrow>
                  if rc \<noteq> 0 then
                    Some (- 1, sys_close fd
                                 (PLOG ERROR (Failed_to_set_encryption_policy_for directory) w4))
                  else
                    (case policy_to_hex (char_signed w) policy
                            (replicate EXT4_KEY_DESCRIPTOR_SIZE_HEX (CHR 0x00)) of
                       None \<Rightarrow> None
                     | Some policy_hex \<Rightarrow>
                         Some (0, LOG INFO (Policy_for_set_to directory (c_str policy_hex))
                                    (sys_close fd w4)))))"

text \<open>
  \<open>policy\<close> is the caller's output buffer; the model returns it with the world. The
  record \<open>eep\<close> is zeroed by \<^verbatim>\<open>memset\<close> before the get request.
\<close>

definition zero_policy :: ext4_encryption_policy where
  "zero_policy = \<lparr>version = 0, contents_encryption_mode = 0, filenames_encryption_mode = 0,
                  flags = 0, master_key_descriptor = replicate EXT4_KEY_DESCRIPTOR_SIZE 0\<rparr>"

definition e4crypt_policy_get ::
  "path \<Rightarrow> byte list \<Rightarrow> nat \<Rightarrow> world \<Rightarrow> (int \<times> byte list \<times> world) option" where
  "e4crypt_policy_get directory policy policy_length w =
     (if policy_length \<noteq> EXT4_KEY_DESCRIPTOR_SIZE then
        Some (- 1, policy, LOG ERROR (Policy_wrong_length policy_length) w)
      else case sys_access directory w of (rc, w1) \<Rightarrow>
        if rc \<noteq> 0 then
          Some (- 1, policy, PLOG ERROR (Failed_to_access_directory directory) w1)
        else case sys_open directory w1 of (fd, w2) \<Rightarrow>
          if fd = - 1 then
            Some (- 1, policy, PLOG ERROR (Failed_to_open_directory directory) w2)
          else case sys_ioctl_get fd zero_policy w2 of (rc, eep, w3) \<Rightarrow>
            if rc \<noteq> 0 then
              Some (- 1, policy,
                    sys_close fd (PLOG WARNING (Failed_to_get_encryption_policy_for directory) w3))
            else
              let w4 = sys_close fd w3 in
              if char_promote (char_signed w) (version eep) = 0
                 \<and> char_promote (char_signed w) (contents_encryption_mode eep)
                     = EXT4_ENCRYPTION_MODE_AES_256_XTS
                 \<and> char_promote (char_signed w) (filenames_encryption_mode eep)
                     = EXT4_ENCRYPTION_MODE_AES_256_CTS
                 \<and> char_promote (char_signed w) (flags eep) = 0
              then
                (if length policy < EXT4_KEY_DESCRIPTOR_SIZE
                    \<or> length (master_key_descriptor eep) < EXT4_KEY_DESCRIPTOR_SIZE
                 then None
                 else Some (0, take EXT4_KEY_DESCRIPTOR_SIZE (master_key_descriptor eep)
                                 @ drop EXT4_KEY_DESCRIPTOR_SIZE policy, w4))
              else
                Some (- 1, policy,
                      LOG ERROR (Failed_to_find_matching_encryption_policy_for directory) w4))"

text \<open>
  \<open>existing_policy\<close> is a local array of 8 bytes that the source does not initialise; it is
  read only after \<open>e4crypt_policy_get\<close> has filled all of it. The model starts it, and the
  two hex buffers, with zeros.
\<close>

definition e4crypt_policy_ensure :: "path \<Rightarrow> byte list \<Rightarrow> nat \<Rightarrow> world \<Rightarrow> (int \<times> world) option" where
  "e4crypt_policy_ensure directory policy policy_length w =
     (if policy_length \<noteq> EXT4_KEY_DESCRIPTOR_SIZE then
        Some (- 1, LOG ERROR (Policy_wrong_length policy_length) w)
      else case e4crypt_policy_get directory (replicate EXT4_KEY_DESCRIPTOR_SIZE 0)
                  EXT4_KEY_DESCRIPTOR_SIZE w of
        None \<Rightarrow> None
      | Some (rc, existing_policy, w1) \<Rightarrow>
          if rc = 0 then
            (case policy_to_hex (char_signed w) policy
                    (replicate EXT4_KEY_DESCRIPTOR_SIZE_HEX (CHR 0x00)) of
               None \<Rightarrow> None
             | Some policy_hex \<Rightarrow>
                 (case policy_to_hex (char_signed w) existing_policy
                         (replicate EXT4_KEY_DESCRIPTOR_SIZE_HEX (CHR 0x00)) of
                    None \<Rightarrow> None
                  | Some existing_policy_hex \<Rightarrow>
                      if take EXT4_KEY_DESCRIPTOR_SIZE policy
                           = take EXT4_KEY_DESCRIPTOR_SIZE existing_policy
                      then
                        Some (0, LOG INFO (Found_policy_which_matches
                                             (c_str existing_policy_hex) directory) w1)
                      else
                        Some (- 1, LOG ERROR (Found_policy_which_doesnt_match
                                                (c_str existing_policy_hex) directory
                                                (c_str policy_hex)) w1)))
          else e4crypt_policy_set directory policy policy_length w1)"

section \<open>Vocabulary of the statements\<close>

text \<open>The fixed tuple: version 0, AES-256-XTS for contents, AES-256-CTS for names, flags 0.\<close>

definition fixed_tuple :: "ext4_encryption_policy \<Rightarrow> bool" where
  "fixed_tuple k \<longleftrightarrow>
     version k = 0 \<and> contents_encryption_mode k = 1 \<and> filenames_encryption_mode k = 4
     \<and> flags k = 0"

text \<open>The record with the fixed tuple and the first 8 bytes of a descriptor.\<close>

definition fixed_policy :: "byte list \<Rightarrow> ext4_encryption_policy" where
  "fixed_policy D = \<lparr>version = 0, contents_encryption_mode = 1, filenames_encryption_mode = 4,
                      flags = 0, master_key_descriptor = take 8 D\<rparr>"

text \<open>The events a call has added to the trace.\<close>

definition new_events :: "world \<Rightarrow> world \<Rightarrow> event list" where
  "new_events w w' = drop (length (trace w)) (trace w')"

text \<open>The names of a listing that the emptiness check counts: all but the reserved one.\<close>

definition counted :: "string list \<Rightarrow> string list" where
  "counted names = filter (\<lambda>n. n \<noteq> ''lost+found'') names"

section \<open>Example worlds\<close>

text \<open>
  Concrete inputs on which the theorems below are evaluated: two descriptors, a directory
  that is empty, writable and carries no policy, and the world that holds one directory
  \<open>/data/misc\<close>, a kernel that accepts every set request, no open handle and an
  empty trace.
\<close>

definition example_descriptor :: "byte list" where
  "example_descriptor = [0x00, 0x11, 0x22, 0x33, 0x44, 0x55, 0x66, 0x77]"

definition other_descriptor :: "byte list" where
  "other_descriptor = [0xDE, 0xAD, 0xBE, 0xEF, 0x01, 0x02, 0x03, 0x04]"

definition empty_dir :: dir_state where
  "empty_dir = \<lparr>can_write = True, can_open = True, can_list = True,
                 listing = [''.'', ''..''], stored = None\<rparr>"

definition example_world :: "dir_state \<Rightarrow> world" where
  "example_world d = \<lparr>dirs = [''/data/misc'' \<mapsto> d], kernel_accepts = (\<lambda>d e. True),
                       char_signed = False, fd_table = [], dir_streams = [], trace = []\<rparr>"



section \<open>The hex codec\<close>

lemma mask_0x0F: "(0x0F :: 32 word) = mask 4"
  by (simp add: mask_eq_exp_minus_1)

lemma mask_0xF0: "(0xF0 :: 32 word) = push_bit 4 (mask 4)"
  by (simp add: mask_eq_exp_minus_1)

lemma low_nibble: "char_promote sc b AND 0x0F = ucast (take_bit 4 b)"
  unfolding mask_0x0F char_promote_def
  by (rule bit_eqI) (auto simp add: bit_simps)

lemma high_nibble: "drop_bit 4 (char_promote sc b AND 0xF0) = ucast (drop_bit 4 b)"
  unfolding mask_0xF0 char_promote_def
proof (rule bit_word_eqI)
  fix n
  assume "n < LENGTH(32)"
  have *: "bit b (4 + n) \<Longrightarrow> 4 + n < 8"
    using bit_imp_le_length [of b "4 + n"] by simp
  show "bit (drop_bit 4 ((if sc then scast b else ucast b) AND push_bit 4 (mask 4) :: 32 word)) n
    \<longleftrightarrow> bit (ucast (drop_bit 4 b) :: 32 word) n"
    using * by (cases "n = 3") (auto simp add: bit_simps min_def)
qed

lemma unat_byte_less: "unat (x :: byte) < 256"
  using unsigned_less [of x, where 'a = nat] by simp

lemma unat_ucast_byte: "unat (ucast (x :: byte) :: 32 word) = unat x"
  using unat_byte_less [of x] by (simp add: unsigned_ucast_eq take_bit_nat_eq_self)

lemma unat_low_nibble: "unat (char_promote sc b AND 0x0F) = unat b mod 16"
proof -
  have "unat (char_promote sc b AND 0x0F) = unat (take_bit 4 b)"
    by (simp only: low_nibble unat_ucast_byte)
  also have "\<dots> = take_bit 4 (unat b)"
    by (rule unsigned_take_bit_eq)
  finally show ?thesis
    by (simp add: take_bit_eq_mod)
qed

lemma unat_high_nibble: "unat (drop_bit 4 (char_promote sc b AND 0xF0)) = unat b div 16"
proof -
  have "unat (drop_bit 4 (char_promote sc b AND 0xF0)) = unat (drop_bit 4 b)"
    by (simp only: high_nibble unat_ucast_byte)
  also have "\<dots> = drop_bit 4 (unat b)"
    by (rule unat_drop_bit_eq)
  finally show ?thesis
    by (simp add: drop_bit_eq_div)
qed

lemma HEX_LOOKUP_all:
  "list_all (\<lambda>n. HEX_LOOKUP ! n = spec_hex_digit n \<and> spec_hex_digit n \<in> set HEX_LOOKUP
      \<and> spec_hex_digit n \<noteq> CHR 0x00) [0..<16]"
  by code_simp

lemma HEX_LOOKUP_digit:
  "n < 16 \<Longrightarrow> HEX_LOOKUP ! n = spec_hex_digit n"
  "n < 16 \<Longrightarrow> spec_hex_digit n \<in> set HEX_LOOKUP"
  "n < 16 \<Longrightarrow> spec_hex_digit n \<noteq> CHR 0x00"
  using HEX_LOOKUP_all by (auto simp add: list_all_iff)

lemma nibbles_less: "unat (b :: byte) div 16 < 16" "unat (b :: byte) mod 16 < 16"
  using unat_byte_less [of b] by simp_all

lemma set_spec_hex_string: "set (spec_hex_string bs) \<subseteq> set HEX_LOOKUP"
  by (auto simp add: spec_hex_string_def spec_hex_of_byte_def HEX_LOOKUP_digit nibbles_less)

lemma NUL_notin_spec_hex_string: "CHR 0x00 \<notin> set (spec_hex_string bs)"
proof -
  have *: "CHR 0x00 \<noteq> spec_hex_digit (unat b div 16)"
    "CHR 0x00 \<noteq> spec_hex_digit (unat b mod 16)" for b :: byte
    using HEX_LOOKUP_digit(3) [OF nibbles_less(1) [of b]]
      HEX_LOOKUP_digit(3) [OF nibbles_less(2) [of b]]
    by simp_all
  show ?thesis
    by (induction bs) (simp_all add: spec_hex_string_def spec_hex_of_byte_def *)
qed

lemma length_spec_hex_string: "length (spec_hex_string bs) = 2 * length bs"
  by (induction bs) (simp_all add: spec_hex_string_def spec_hex_of_byte_def)

lemma nth_spec_hex_string:
  "k < length bs \<Longrightarrow>
     spec_hex_string bs ! (2 * k) = spec_hex_digit (unat (bs ! k) div 16) \<and>
     spec_hex_string bs ! (2 * k + 1) = spec_hex_digit (unat (bs ! k) mod 16)"
proof (induction bs arbitrary: k)
  case Nil
  then show ?case by simp
next
  case (Cons b bs)
  show ?case
  proof (cases k)
    case 0
    then show ?thesis by (simp add: spec_hex_string_def spec_hex_of_byte_def)
  next
    case (Suc m)
    with Cons.prems have "m < length bs" by simp
    from Cons.IH [OF this] Suc show ?thesis
      by (simp add: spec_hex_string_def spec_hex_of_byte_def)
  qed
qed

lemma take_two_updates:
  assumes "j + 1 < length hex"
  shows "take (j + 2) (hex[j := a, j + 1 := b]) = take j hex @ [a, b]"
proof -
  have "take (Suc (Suc j)) (hex[j := a, Suc j := b])
        = take (Suc j) (hex[j := a, Suc j := b]) @ [b]"
    using assms by (simp add: take_Suc_conv_app_nth)
  also have "take (Suc j) (hex[j := a, Suc j := b]) = take j hex @ [a]"
    using assms by (simp add: take_Suc_conv_app_nth)
  finally show ?thesis by simp
qed

lemma policy_to_hex_loop_inv:
  "i \<le> 8 \<Longrightarrow> j = 2 * i \<Longrightarrow> 8 \<le> length policy \<Longrightarrow> 16 \<le> length hex \<Longrightarrow>
   policy_to_hex_loop sc policy i j hex
     = take j hex @ spec_hex_string (drop i (take 8 policy)) @ drop 16 hex"
proof (induction sc policy i j hex rule: policy_to_hex_loop.induct)
  case (1 sc policy i j hex)
  show ?case
  proof (cases "i < 8")
    case False
    with "1.prems" have "i = 8" by simp
    with "1.prems" show ?thesis
      by (subst policy_to_hex_loop.simps)
        (simp add: EXT4_KEY_DESCRIPTOR_SIZE_def spec_hex_string_def)
  next
    case True
    let ?a = "HEX_LOOKUP ! unat (drop_bit 4 (char_promote sc (policy ! i) AND 0xF0))"
    let ?b = "HEX_LOOKUP ! unat (char_promote sc (policy ! i) AND 0x0F)"
    let ?hex = "hex[j := ?a, j + 1 := ?b]"
    have j: "j + 1 < 16" "j + 1 < length hex"
      using True "1.prems" by simp_all
    have ab: "?a = spec_hex_digit (unat (policy ! i) div 16)"
      "?b = spec_hex_digit (unat (policy ! i) mod 16)"
      by (simp_all only: unat_high_nibble unat_low_nibble HEX_LOOKUP_digit nibbles_less)
    have IH: "policy_to_hex_loop sc policy (i + 1) (j + 2) ?hex
              = take (j + 2) ?hex @ spec_hex_string (drop (i + 1) (take 8 policy)) @ drop 16 ?hex"
      using True "1.prems" by (intro "1.IH") (simp_all add: EXT4_KEY_DESCRIPTOR_SIZE_def)
    have "i < length (take 8 policy)"
      using True "1.prems" by simp
    from Cons_nth_drop_Suc [OF this]
    have d: "spec_hex_string (drop i (take 8 policy))
             = [spec_hex_digit (unat (policy ! i) div 16), spec_hex_digit (unat (policy ! i) mod 16)]
               @ spec_hex_string (drop (i + 1) (take 8 policy))"
      using True unfolding spec_hex_string_def
      by (metis Suc_eq_plus1 append_Cons append_Nil concat.simps(2) spec_hex_of_byte_def
          list.simps(9) nth_take)
    have "policy_to_hex_loop sc policy i j hex
          = policy_to_hex_loop sc policy (i + 1) (j + 2) ?hex"
      using True by (subst policy_to_hex_loop.simps) (simp add: EXT4_KEY_DESCRIPTOR_SIZE_def)
    also note IH
    also have "take (j + 2) ?hex = take j hex @ [?a, ?b]"
      using j by (rule_tac take_two_updates) simp
    also have "drop 16 ?hex = drop 16 hex"
      using j by simp
    finally show ?thesis
      unfolding d ab by simp
  qed
qed

lemma policy_to_hex_eq:
  assumes "8 \<le> length policy" and "length hex = 17"
  shows "policy_to_hex sc policy hex = Some (spec_hex_string (take 8 policy) @ [CHR 0x00])"
proof -
  have len: "length (spec_hex_string (take 8 policy)) = 16"
    using assms(1) by (simp add: length_spec_hex_string)
  have "policy_to_hex_loop sc policy 0 0 hex = spec_hex_string (take 8 policy) @ drop 16 hex"
    using assms by (simp add: policy_to_hex_loop_inv)
  moreover have "drop 16 hex = [hex ! 16]"
    using assms(2) Cons_nth_drop_Suc [of 16 hex] by simp
  ultimately show ?thesis
    using assms len
    by (simp add: policy_to_hex_def EXT4_KEY_DESCRIPTOR_SIZE_def EXT4_KEY_DESCRIPTOR_SIZE_HEX_def
        list_update_append)
qed

lemma c_str_spec_hex_string: "c_str (spec_hex_string bs @ [CHR 0x00]) = spec_hex_string bs"
proof -
  have "x \<noteq> CHR 0x00" if "x \<in> set (spec_hex_string bs)" for x
    using that NUL_notin_spec_hex_string [of bs] by auto
  then show ?thesis
    by (simp add: c_str_def)
qed

lemma spec_hex_example:
  "spec_hex_string [0x00, 0x11, 0x22, 0x33, 0x44, 0x55, 0x66, 0x77] = ''0011223344556677''"
  by code_simp

text \<open>
  C8. For every 8 bytes, whatever the signedness of \<open>char\<close> (so also for bytes with the
  high bit set) and whatever the buffer of 17 characters held before, \<open>policy_to_hex\<close>
  leaves in the buffer 16 lowercase hexadecimal characters, two for each byte in order
  with the high nibble first, and then NUL. The descriptor 00 11 22 33 44 55 66 77 gives
  the string 0011223344556677.
\<close>

theorem policy_to_hex_correct:
  assumes "length policy = 8" and "length hex = 17"
  shows "\<exists>out. policy_to_hex sc policy hex = Some (out @ [CHR 0x00])
           \<and> out = spec_hex_string policy
           \<and> length (out @ [CHR 0x00]) = 17
           \<and> set out \<subseteq> set ''0123456789abcdef''
           \<and> (\<forall>k<8. out ! (2 * k) = spec_hex_digit (unat (policy ! k) div 16)
                    \<and> out ! (2 * k + 1) = spec_hex_digit (unat (policy ! k) mod 16))
           \<and> policy_to_hex sc [0x00, 0x11, 0x22, 0x33, 0x44, 0x55, 0x66, 0x77] hex
               = Some (''0011223344556677'' @ [CHR 0x00])"
proof -
  have "policy_to_hex sc policy hex = Some (spec_hex_string policy @ [CHR 0x00])"
    using assms policy_to_hex_eq [of policy hex sc] by simp
  moreover have "length (spec_hex_string policy @ [CHR 0x00]) = 17"
    using assms(1) by (simp add: length_spec_hex_string)
  moreover have "set (spec_hex_string policy) \<subseteq> set ''0123456789abcdef''"
    using set_spec_hex_string [of policy] by (simp only: HEX_LOOKUP_def)
  moreover have "\<forall>k<8. spec_hex_string policy ! (2 * k) = spec_hex_digit (unat (policy ! k) div 16)
                    \<and> spec_hex_string policy ! (2 * k + 1) = spec_hex_digit (unat (policy ! k) mod 16)"
    using assms(1) nth_spec_hex_string [of _ policy] by simp
  moreover have "policy_to_hex sc [0x00, 0x11, 0x22, 0x33, 0x44, 0x55, 0x66, 0x77] hex
               = Some (''0011223344556677'' @ [CHR 0x00])"
    using assms(2) policy_to_hex_eq [of "[0x00, 0x11, 0x22, 0x33, 0x44, 0x55, 0x66, 0x77]" hex sc]
    by (simp add: spec_hex_example)
  ultimately show ?thesis by blast
qed

theorem policy_to_hex_correct_witness:
  "policy_to_hex True [0x80, 0xFF, 0xAB, 0x09, 0x1A, 0xC0, 0x0D, 0x7E] (replicate 17 (CHR ''x''))
     = Some (''80ffab091ac00d7e'' @ [CHR 0x00])"
proof -
  have "spec_hex_string [0x80, 0xFF, 0xAB, 0x09, 0x1A, 0xC0, 0x0D, 0x7E] = ''80ffab091ac00d7e''"
    by code_simp
  then show ?thesis
    using policy_to_hex_correct [of "[0x80, 0xFF, 0xAB, 0x09, 0x1A, 0xC0, 0x0D, 0x7E]"
        "replicate 17 (CHR ''x'')" True]
    by simp
qed


section \<open>Promotion and narrowing of chars\<close>

lemma ucast_char_promote: "ucast (char_promote sc b) = b"
  unfolding char_promote_def
  by (rule bit_word_eqI) (auto simp add: bit_simps)

lemma char_promote_eq_iff: "char_promote sc b = n \<longleftrightarrow> b = ucast n \<and> char_promote sc (ucast n) = n"
  using ucast_char_promote [of sc b] by auto

lemma char_promote_consts:
  "char_promote sc b = 0 \<longleftrightarrow> b = 0"
  "char_promote sc b = EXT4_ENCRYPTION_MODE_AES_256_XTS \<longleftrightarrow> b = 1"
  "char_promote sc b = EXT4_ENCRYPTION_MODE_AES_256_CTS \<longleftrightarrow> b = 4"
  by (subst char_promote_eq_iff;
      simp add: char_promote_def EXT4_ENCRYPTION_MODE_AES_256_XTS_def
        EXT4_ENCRYPTION_MODE_AES_256_CTS_def)+

lemma int_to_char_consts:
  "int_to_char 0 = 0"
  "int_to_char EXT4_ENCRYPTION_MODE_AES_256_XTS = 1"
  "int_to_char EXT4_ENCRYPTION_MODE_AES_256_CTS = 4"
  by (simp_all add: int_to_char_def EXT4_ENCRYPTION_MODE_AES_256_XTS_def
        EXT4_ENCRYPTION_MODE_AES_256_CTS_def)

section \<open>Fresh handles\<close>

lemma fresh_fd_greater: "e \<in> set tab \<Longrightarrow> fst e < fresh_fd tab"
proof -
  assume "e \<in> set tab"
  then have "fst e \<in> set (2 # map fst tab)" by simp
  then have "fst e \<le> Max (set (2 # map fst tab))" by (intro Max_ge) simp_all
  then show ?thesis unfolding fresh_fd_def by linarith
qed

lemma fresh_fd_not_minus_one: "fresh_fd tab \<noteq> - 1"
proof -
  have "2 \<le> Max (set (2 # map fst tab))" by (intro Max_ge) simp_all
  then show ?thesis unfolding fresh_fd_def by linarith
qed

lemma filter_fresh_fd: "filter (\<lambda>e. fst e \<noteq> fresh_fd tab) tab = tab"
  using fresh_fd_greater [of _ tab] by (intro filter_True) fastforce

lemma fresh_stream_greater: "h \<in> set hs \<Longrightarrow> h < fresh_stream hs"
proof -
  assume "h \<in> set hs"
  then have "h \<le> Max (set (0 # hs))" by (intro Max_ge) simp_all
  then show ?thesis unfolding fresh_stream_def by linarith
qed

lemma filter_fresh_stream: "filter (\<lambda>k. k \<noteq> fresh_stream hs) hs = hs"
  using fresh_stream_greater [of _ hs] by (intro filter_True) fastforce

section \<open>The result of is\_dir\_empty\<close>

text \<open>
  On a directory that can be listed the call returns the comparison of the loop's count
  with 2 and leaves the streams as they were; it is undefined exactly when \<^verbatim>\<open>opendir\<close>
  answers NULL.
\<close>

lemma is_dir_empty_eq:
  assumes "dirs w p = Some d" and "can_list d"
  shows "is_dir_empty p w
         = Some (if is_dir_empty_loop 0 (listing d) \<le> 2 then 1 else 0,
                 w\<lparr>trace := trace w @ [OpenDir p, CloseDir (fresh_stream (dir_streams w))]\<rparr>)"
  using assms
  by (simp add: is_dir_empty_def sys_opendir_def sys_closedir_def record_event_def
      filter_fresh_stream)

lemma is_dir_empty_None:
  "is_dir_empty p w = None \<longleftrightarrow> (\<forall>d. dirs w p = Some d \<longrightarrow> \<not> can_list d)"
  by (auto simp add: is_dir_empty_def sys_opendir_def split: option.splits)


section \<open>Closed forms of the three entry points\<close>

lemma e4crypt_policy_get_eq:
  "e4crypt_policy_get P buf 8 w =
     (let fd = fresh_fd (fd_table w) in
      case dirs w P of
        None \<Rightarrow>
          Some (- 1, buf,
                w\<lparr>trace := trace w @ [Access P, PLog ERROR (Failed_to_access_directory P)]\<rparr>)
      | Some d \<Rightarrow>
          if \<not> can_write d then
            Some (- 1, buf,
                  w\<lparr>trace := trace w @ [Access P, PLog ERROR (Failed_to_access_directory P)]\<rparr>)
          else if \<not> can_open d then
            Some (- 1, buf,
                  w\<lparr>trace := trace w
                      @ [Access P, Open P, PLog ERROR (Failed_to_open_directory P)]\<rparr>)
          else
            (case stored d of
               None \<Rightarrow>
                 Some (- 1, buf,
                       w\<lparr>trace := trace w
                           @ [Access P, Open P, IoctlGet fd,
                              PLog WARNING (Failed_to_get_encryption_policy_for P), Close fd]\<rparr>)
             | Some k \<Rightarrow>
                 if fixed_tuple k then
                   (if length buf < 8 \<or> length (master_key_descriptor k) < 8 then None
                    else Some (0, take 8 (master_key_descriptor k) @ drop 8 buf,
                               w\<lparr>trace := trace w @ [Access P, Open P, IoctlGet fd, Close fd]\<rparr>))
                 else
                   Some (- 1, buf,
                         w\<lparr>trace := trace w
                             @ [Access P, Open P, IoctlGet fd, Close fd,
                                Log ERROR (Failed_to_find_matching_encryption_policy_for P)]\<rparr>)))"
  by (simp add: e4crypt_policy_get_def EXT4_KEY_DESCRIPTOR_SIZE_def sys_access_def sys_open_def
      sys_ioctl_get_def sys_close_def record_event_def LOG_def PLOG_def Let_def
      fresh_fd_not_minus_one filter_fresh_fd char_promote_consts fixed_tuple_def
      split: option.splits)


lemma written_policy_eq:
  "\<lparr>version = int_to_char 0,
    contents_encryption_mode = int_to_char EXT4_ENCRYPTION_MODE_AES_256_XTS,
    filenames_encryption_mode = int_to_char EXT4_ENCRYPTION_MODE_AES_256_CTS,
    flags = int_to_char 0,
    master_key_descriptor = take EXT4_KEY_DESCRIPTOR_SIZE policy\<rparr> = fixed_policy policy"
  by (simp add: int_to_char_consts fixed_policy_def EXT4_KEY_DESCRIPTOR_SIZE_def)

lemma policy_hex_eq:
  "8 \<le> length policy \<Longrightarrow>
   policy_to_hex sc policy (replicate EXT4_KEY_DESCRIPTOR_SIZE_HEX (CHR 0x00))
     = Some (spec_hex_string (take 8 policy) @ [CHR 0x00])"
  by (simp add: policy_to_hex_eq EXT4_KEY_DESCRIPTOR_SIZE_HEX_def)

lemma e4crypt_policy_set_eq:
  "e4crypt_policy_set P policy 8 w =
     (let fd = fresh_fd (fd_table w); h = fresh_stream (dir_streams w) in
      case dirs w P of
        None \<Rightarrow>
          Some (- 1, w\<lparr>trace := trace w @ [Access P, PLog ERROR (Failed_to_access_directory P)]\<rparr>)
      | Some d \<Rightarrow>
          if \<not> can_write d then
            Some (- 1,
                  w\<lparr>trace := trace w @ [Access P, PLog ERROR (Failed_to_access_directory P)]\<rparr>)
          else if \<not> can_open d then
            Some (- 1,
                  w\<lparr>trace := trace w
                      @ [Access P, Open P, PLog ERROR (Failed_to_open_directory P)]\<rparr>)
          else if \<not> can_list d then None
          else if \<not> is_dir_empty_loop 0 (listing d) \<le> 2 then
            Some (- 1,
                  w\<lparr>fd_table := (fd, P) # fd_table w,
                    trace := trace w
                      @ [Access P, Open P, OpenDir P, CloseDir h,
                         Log ERROR (Can_only_set_policy_on_an_empty_directory P)]\<rparr>)
          else if length policy < 8 then None
          else if \<not> kernel_accepts w d (fixed_policy policy) then
            Some (- 1,
                  w\<lparr>trace := trace w
                      @ [Access P, Open P, OpenDir P, CloseDir h, IoctlSet fd (fixed_policy policy),
                         PLog ERROR (Failed_to_set_encryption_policy_for P), Close fd]\<rparr>)
          else
            Some (0,
                  w\<lparr>dirs := (dirs w)(P \<mapsto> d\<lparr>stored := Some (fixed_policy policy)\<rparr>),
                    trace := trace w
                      @ [Access P, Open P, OpenDir P, CloseDir h, IoctlSet fd (fixed_policy policy),
                         Close fd,
                         Log INFO (Policy_for_set_to P (spec_hex_string (take 8 policy)))]\<rparr>))"
proof (cases "dirs w P")
  case None
  then show ?thesis
    by (simp add: e4crypt_policy_set_def EXT4_KEY_DESCRIPTOR_SIZE_def sys_access_def
        record_event_def PLOG_def Let_def)
next
  case (Some d)
  show ?thesis
  proof (cases "can_write d \<and> can_open d")
    case False
    with Some show ?thesis
      by (auto simp add: e4crypt_policy_set_def EXT4_KEY_DESCRIPTOR_SIZE_def sys_access_def
          sys_open_def record_event_def PLOG_def Let_def)
  next
    case True
    note wo = this
    show ?thesis
    proof (cases "can_list d")
      case False
      with Some wo show ?thesis
        by (simp add: e4crypt_policy_set_def EXT4_KEY_DESCRIPTOR_SIZE_def sys_access_def
            sys_open_def record_event_def PLOG_def Let_def fresh_fd_not_minus_one
            is_dir_empty_def sys_opendir_def)
    next
      case True
      have ide: "is_dir_empty P w' = Some (if is_dir_empty_loop 0 (listing d) \<le> 2 then 1 else 0,
                 w'\<lparr>trace := trace w' @ [OpenDir P, CloseDir (fresh_stream (dir_streams w'))]\<rparr>)"
        if "dirs w' P = Some d" for w'
        using that True by (rule is_dir_empty_eq)
      show ?thesis
        using Some wo True
        by (simp add: e4crypt_policy_set_def sys_access_def
            sys_open_def record_event_def PLOG_def LOG_def Let_def fresh_fd_not_minus_one
            ide written_policy_eq sys_ioctl_set_def sys_close_def filter_fresh_fd
            policy_hex_eq c_str_spec_hex_string)
          (simp add: EXT4_KEY_DESCRIPTOR_SIZE_def)
    qed
  qed
qed


lemma new_events_append [simp]: "new_events w (w\<lparr>trace := trace w @ evs\<rparr>) = evs"
  by (simp add: new_events_def)

lemma new_events_append_more [simp]:
  "new_events w (w\<lparr>dirs := ds, trace := trace w @ evs\<rparr>) = evs"
  "new_events w (w\<lparr>fd_table := tab, trace := trace w @ evs\<rparr>) = evs"
  by (simp_all add: new_events_def)

text \<open>Inversion of a successful read.\<close>

lemma e4crypt_policy_get_success:
  assumes "e4crypt_policy_get P buf 8 w = Some (0, ex, w1)"
  shows "\<exists>d k. dirs w P = Some d \<and> can_write d \<and> can_open d \<and> stored d = Some k
           \<and> fixed_tuple k \<and> 8 \<le> length buf \<and> 8 \<le> length (master_key_descriptor k)
           \<and> ex = take 8 (master_key_descriptor k) @ drop 8 buf
           \<and> w1 = w\<lparr>trace := trace w
                     @ [Access P, Open P, IoctlGet (fresh_fd (fd_table w)),
                        Close (fresh_fd (fd_table w))]\<rparr>"
  using assms unfolding e4crypt_policy_get_eq Let_def
  by (auto split: option.splits if_splits)

lemma e4crypt_policy_get_succeeds:
  assumes "dirs w P = Some d" "can_write d" "can_open d" "stored d = Some k" "fixed_tuple k"
    "8 \<le> length buf" "8 \<le> length (master_key_descriptor k)"
  shows "e4crypt_policy_get P buf 8 w
         = Some (0, take 8 (master_key_descriptor k) @ drop 8 buf,
                 w\<lparr>trace := trace w
                     @ [Access P, Open P, IoctlGet (fresh_fd (fd_table w)),
                        Close (fresh_fd (fd_table w))]\<rparr>)"
  using assms unfolding e4crypt_policy_get_eq Let_def by simp

text \<open>\<open>e4crypt_policy_ensure\<close> after a successful read: the comparison decides.\<close>

lemma e4crypt_policy_ensure_found:
  assumes "dirs w P = Some d" "can_write d" "can_open d" "stored d = Some k" "fixed_tuple k"
    "length (master_key_descriptor k) = 8" "length D = 8"
  shows "e4crypt_policy_ensure P D 8 w
         = (if D = master_key_descriptor k then
              Some (0, w\<lparr>trace := trace w
                     @ [Access P, Open P, IoctlGet (fresh_fd (fd_table w)),
                        Close (fresh_fd (fd_table w)),
                        Log INFO (Found_policy_which_matches (spec_hex_string D) P)]\<rparr>)
            else
              Some (- 1, w\<lparr>trace := trace w
                     @ [Access P, Open P, IoctlGet (fresh_fd (fd_table w)),
                        Close (fresh_fd (fd_table w)),
                        Log ERROR (Found_policy_which_doesnt_match
                                     (spec_hex_string (master_key_descriptor k)) P
                                     (spec_hex_string D))]\<rparr>))"
proof -
  have "e4crypt_policy_get P (replicate 8 0) 8 w
        = Some (0, master_key_descriptor k,
                w\<lparr>trace := trace w
                     @ [Access P, Open P, IoctlGet (fresh_fd (fd_table w)),
                        Close (fresh_fd (fd_table w))]\<rparr>)"
    using e4crypt_policy_get_succeeds [OF assms(1-5), of "replicate 8 0"] assms(6) by simp
  then show ?thesis
    using assms(6,7)
    by (simp add: e4crypt_policy_ensure_def EXT4_KEY_DESCRIPTOR_SIZE_def policy_hex_eq
        c_str_spec_hex_string LOG_def record_event_def)
qed

text \<open>\<open>e4crypt_policy_ensure\<close> after a failed read: \<open>e4crypt_policy_set\<close> decides.\<close>

lemma e4crypt_policy_ensure_unset:
  assumes "dirs w P = Some d" "can_write d" "can_open d"
    "\<forall>k. stored d = Some k \<longrightarrow> \<not> fixed_tuple k"
  shows "\<exists>evs. \<not> list_ex is_set_ioctl evs \<and>
           e4crypt_policy_ensure P D 8 w
             = e4crypt_policy_set P D 8 (w\<lparr>trace := trace w @ evs\<rparr>)"
proof (cases "stored d")
  case None
  with assms show ?thesis
    by (intro exI [of _ "[Access P, Open P, IoctlGet (fresh_fd (fd_table w)),
          PLog WARNING (Failed_to_get_encryption_policy_for P), Close (fresh_fd (fd_table w))]"])
      (simp add: e4crypt_policy_ensure_def e4crypt_policy_get_eq [unfolded Let_def]
        EXT4_KEY_DESCRIPTOR_SIZE_def)
next
  case (Some k)
  with assms show ?thesis
    by (intro exI [of _ "[Access P, Open P, IoctlGet (fresh_fd (fd_table w)),
          Close (fresh_fd (fd_table w)),
          Log ERROR (Failed_to_find_matching_encryption_policy_for P)]"])
      (simp add: e4crypt_policy_ensure_def e4crypt_policy_get_eq [unfolded Let_def]
        EXT4_KEY_DESCRIPTOR_SIZE_def)
qed

section \<open>Rejected arguments and failures of e4crypt\_policy\_get\<close>

lemma wrong_length_eqs:
  assumes "policy_length \<noteq> 8"
  shows "e4crypt_policy_set directory policy policy_length w
           = Some (- 1, w\<lparr>trace := trace w @ [Log ERROR (Policy_wrong_length policy_length)]\<rparr>)"
    and "e4crypt_policy_get directory policy policy_length w
           = Some (- 1, policy,
                   w\<lparr>trace := trace w @ [Log ERROR (Policy_wrong_length policy_length)]\<rparr>)"
    and "e4crypt_policy_ensure directory policy policy_length w
           = Some (- 1, w\<lparr>trace := trace w @ [Log ERROR (Policy_wrong_length policy_length)]\<rparr>)"
  using assms
  by (simp_all add: e4crypt_policy_set_def e4crypt_policy_get_def e4crypt_policy_ensure_def
      EXT4_KEY_DESCRIPTOR_SIZE_def LOG_def record_event_def)

text \<open>
  C5. When \<open>policy_length\<close> is not 8, each of the three entry points returns -1 after the
  log line "Policy wrong length" and nothing else: the new world is the old one with that
  one line added to the trace, so there was no access check, no open, no listing and no
  ioctl; \<open>e4crypt_policy_get\<close> leaves the buffer as it was.
\<close>

theorem wrong_length_rejected:
  assumes "policy_length \<noteq> 8"
  shows "e4crypt_policy_set directory policy policy_length w
           = Some (- 1, w\<lparr>trace := trace w @ [Log ERROR (Policy_wrong_length policy_length)]\<rparr>)
       \<and> e4crypt_policy_get directory policy policy_length w
           = Some (- 1, policy,
                   w\<lparr>trace := trace w @ [Log ERROR (Policy_wrong_length policy_length)]\<rparr>)
       \<and> e4crypt_policy_ensure directory policy policy_length w
           = Some (- 1, w\<lparr>trace := trace w @ [Log ERROR (Policy_wrong_length policy_length)]\<rparr>)"
  using wrong_length_eqs [OF assms] by simp

theorem wrong_length_rejected_witness:
  "e4crypt_policy_set ''/data/misc'' [1, 2, 3] 3 (example_world empty_dir)
     = Some (- 1, (example_world empty_dir)\<lparr>trace := [Log ERROR (Policy_wrong_length 3)]\<rparr>)
   \<and> e4crypt_policy_get ''/data/misc'' [1, 2, 3] 3 (example_world empty_dir)
     = Some (- 1, [1, 2, 3],
             (example_world empty_dir)\<lparr>trace := [Log ERROR (Policy_wrong_length 3)]\<rparr>)
   \<and> e4crypt_policy_ensure ''/data/misc'' [1, 2, 3] 3 (example_world empty_dir)
     = Some (- 1, (example_world empty_dir)\<lparr>trace := [Log ERROR (Policy_wrong_length 3)]\<rparr>)"
  using wrong_length_rejected [of 3 "''/data/misc''" "[1, 2, 3]" "example_world empty_dir"]
  by (simp add: example_world_def)

text \<open>
  C9. On a directory the caller may not write, \<open>e4crypt_policy_get\<close> returns -1 and
  leaves the buffer: with \<open>policy_length = 8\<close> after the access check and its log line,
  otherwise after the length check. In both cases no open and no get ioctl is issued.
\<close>

theorem get_requires_write_permission:
  assumes "dirs w directory = Some d" and "\<not> can_write d"
  shows "\<exists>w'. e4crypt_policy_get directory policy policy_length w = Some (- 1, policy, w')
           \<and> new_events w w'
               = (if policy_length = 8
                  then [Access directory, PLog ERROR (Failed_to_access_directory directory)]
                  else [Log ERROR (Policy_wrong_length policy_length)])
           \<and> \<not> list_ex is_get_ioctl (new_events w w')"
proof (cases "policy_length = 8")
  case True
  with assms show ?thesis
    by (simp add: e4crypt_policy_get_eq)
next
  case False
  then show ?thesis
    by (simp add: wrong_length_eqs)
qed

theorem get_requires_write_permission_witness:
  "\<exists>w'. e4crypt_policy_get ''/data/misc'' example_descriptor 8
            (example_world (empty_dir\<lparr>can_write := False, stored := Some (fixed_policy other_descriptor)\<rparr>))
          = Some (- 1, example_descriptor, w')
        \<and> new_events (example_world (empty_dir\<lparr>can_write := False, stored := Some (fixed_policy other_descriptor)\<rparr>)) w'
            = [Access ''/data/misc'', PLog ERROR (Failed_to_access_directory ''/data/misc'')]"
  using get_requires_write_permission
    [of "example_world (empty_dir\<lparr>can_write := False, stored := Some (fixed_policy other_descriptor)\<rparr>)"
        "''/data/misc''"
        "empty_dir\<lparr>can_write := False, stored := Some (fixed_policy other_descriptor)\<rparr>"
        example_descriptor 8]
  by (auto simp add: example_world_def empty_dir_def)

text \<open>
  C10. Whenever \<open>e4crypt_policy_get\<close> returns something other than 0 (the length check,
  the access check, the open, the get ioctl or the comparison with the fixed tuple has
  failed), the buffer it returns is the buffer it was given.
\<close>

theorem get_failure_keeps_buffer:
  assumes "e4crypt_policy_get directory policy policy_length w = Some (rc, policy', w')"
    and "rc \<noteq> 0"
  shows "policy' = policy \<and> rc = - 1"
proof (cases "policy_length = 8")
  case True
  with assms show ?thesis
    by (auto simp add: e4crypt_policy_get_eq Let_def split: option.splits if_splits)
next
  case False
  with assms show ?thesis
    by (simp add: wrong_length_eqs)
qed

theorem get_failure_keeps_buffer_witness:
  "\<exists>rc w'. e4crypt_policy_get ''/data/misc'' example_descriptor 8
            (example_world (empty_dir\<lparr>stored := Some ((fixed_policy other_descriptor)\<lparr>flags := 1\<rparr>)\<rparr>))
          = Some (rc, example_descriptor, w')
        \<and> rc = - 1 \<and> list_ex is_get_ioctl (trace w')"
proof -
  let ?w = "example_world (empty_dir\<lparr>stored := Some ((fixed_policy other_descriptor)\<lparr>flags := 1\<rparr>)\<rparr>)"
  have "\<exists>rc b w'. e4crypt_policy_get ''/data/misc'' example_descriptor 8 ?w = Some (rc, b, w')
          \<and> rc \<noteq> 0 \<and> list_ex is_get_ioctl (trace w')"
    by (simp add: e4crypt_policy_get_eq Let_def example_world_def empty_dir_def fixed_policy_def
        fixed_tuple_def)
  then obtain rc b w'
    where g: "e4crypt_policy_get ''/data/misc'' example_descriptor 8 ?w = Some (rc, b, w')"
      and rc: "rc \<noteq> 0" and tr: "list_ex is_get_ioctl (trace w')"
    by blast
  from get_failure_keeps_buffer [OF g rc] g tr show ?thesis
    by blast
qed


section \<open>What the loop of is\_dir\_empty counts\<close>

lemma is_dir_empty_loop_eq:
  "n \<le> 2 \<Longrightarrow> is_dir_empty_loop n names = min 3 (n + int (length (counted names)))"
  by (induction names arbitrary: n) (auto simp add: counted_def)

lemma is_dir_empty_loop_le:
  "is_dir_empty_loop 0 names \<le> 2 \<longleftrightarrow> length (counted names) \<le> 2"
  by (simp add: is_dir_empty_loop_eq min_def)

lemma length_counted:
  "length (counted names)
   = count_list names ''.'' + count_list names ''..''
     + length (filter (\<lambda>n. n \<notin> {''.'', ''..'', ''lost+found''}) names)"
  by (induction names) (auto simp add: counted_def)

lemma counted_dots:
  assumes "count_list names ''.'' = 1" and "count_list names ''..'' = 1"
  shows "length (counted names) \<le> 2 \<longleftrightarrow> set names \<subseteq> {''.'', ''..'', ''lost+found''}"
proof -
  have "length (counted names) \<le> 2
        \<longleftrightarrow> filter (\<lambda>n. n \<notin> {''.'', ''..'', ''lost+found''}) names = []"
    using assms by (simp add: length_counted)
  also have "\<dots> \<longleftrightarrow> set names \<subseteq> {''.'', ''..'', ''lost+found''}"
    by (auto simp add: filter_empty_conv)
  finally show ?thesis .
qed

section \<open>The reconciler\<close>

text \<open>
  C1. When \<open>e4crypt_policy_get\<close> reads the policy of a directory (returns 0 with the
  8 bytes \<open>existing\<close>) and the requested 8-byte descriptor is different, then
  \<open>e4crypt_policy_ensure\<close> returns -1; what it does is what the read does, followed by
  the log line "Found policy ... which doesn't match expected value ...": no set ioctl
  is issued, the file system and the kernel's records are as before, and a read after
  it still returns \<open>existing\<close>.
\<close>

theorem ensure_conflict:
  assumes "length policy = 8" and "length buf = 8"
    and "e4crypt_policy_get directory buf 8 w = Some (0, existing, w1)"
    and "existing \<noteq> policy"
  shows "\<exists>w'. e4crypt_policy_ensure directory policy 8 w = Some (- 1, w')
           \<and> new_events w w'
               = new_events w w1
                 @ [Log ERROR (Found_policy_which_doesnt_match (spec_hex_string existing)
                                 directory (spec_hex_string policy))]
           \<and> \<not> list_ex is_set_ioctl (new_events w w')
           \<and> dirs w' = dirs w
           \<and> (\<exists>w''. e4crypt_policy_get directory buf 8 w' = Some (0, existing, w''))"
proof -
  from e4crypt_policy_get_success [OF assms(3)] assms(2)
  obtain d k where d: "dirs w directory = Some d" "can_write d" "can_open d"
    "stored d = Some k" "fixed_tuple k"
    and k: "8 \<le> length (master_key_descriptor k)" "existing = take 8 (master_key_descriptor k)"
    and w1: "w1 = w\<lparr>trace := trace w
                     @ [Access directory, Open directory, IoctlGet (fresh_fd (fd_table w)),
                        Close (fresh_fd (fd_table w))]\<rparr>"
    by auto
  let ?w' = "w\<lparr>trace := trace w
                     @ [Access directory, Open directory, IoctlGet (fresh_fd (fd_table w)),
                        Close (fresh_fd (fd_table w)),
                        Log ERROR (Found_policy_which_doesnt_match (spec_hex_string existing)
                                 directory (spec_hex_string policy))]\<rparr>"
  have "e4crypt_policy_get directory (replicate 8 0) 8 w = Some (0, existing, w1)"
    using e4crypt_policy_get_succeeds [OF d, of "replicate 8 0"] k w1 by simp
  then have e: "e4crypt_policy_ensure directory policy 8 w = Some (- 1, ?w')"
    using assms(1,4) k w1
    by (simp add: e4crypt_policy_ensure_def EXT4_KEY_DESCRIPTOR_SIZE_def policy_hex_eq
        c_str_spec_hex_string LOG_def record_event_def)
  have g: "e4crypt_policy_get directory buf 8 ?w'
           = Some (0, existing, ?w'\<lparr>trace := trace ?w'
                     @ [Access directory, Open directory, IoctlGet (fresh_fd (fd_table ?w')),
                        Close (fresh_fd (fd_table ?w'))]\<rparr>)"
    using e4crypt_policy_get_succeeds [of ?w' directory d k buf] d k assms(2) by simp
  show ?thesis
    using e g w1 by (intro exI [of _ ?w']) simp
qed

theorem ensure_conflict_witness:
  "\<exists>w'. e4crypt_policy_ensure ''/data/misc'' example_descriptor 8
            (example_world (empty_dir\<lparr>stored := Some (fixed_policy other_descriptor)\<rparr>))
          = Some (- 1, w')
        \<and> new_events (example_world (empty_dir\<lparr>stored := Some (fixed_policy other_descriptor)\<rparr>)) w'
            = [Access ''/data/misc'', Open ''/data/misc'', IoctlGet 3, Close 3,
               Log ERROR (Found_policy_which_doesnt_match ''deadbeef01020304'' ''/data/misc''
                            ''0011223344556677'')]
        \<and> dirs w' ''/data/misc'' = Some (empty_dir\<lparr>stored := Some (fixed_policy other_descriptor)\<rparr>)"
proof -
  let ?w = "example_world (empty_dir\<lparr>stored := Some (fixed_policy other_descriptor)\<rparr>)"
  have fd: "fresh_fd [] = 3"
    by (simp add: fresh_fd_def)
  have g: "e4crypt_policy_get ''/data/misc'' (replicate 8 0) 8 ?w
           = Some (0, other_descriptor,
                   ?w\<lparr>trace := trace ?w @ [Access ''/data/misc'', Open ''/data/misc'', IoctlGet 3, Close 3]\<rparr>)"
    by (simp add: e4crypt_policy_get_eq Let_def example_world_def empty_dir_def fixed_policy_def
        fixed_tuple_def other_descriptor_def fd)
  have hex: "spec_hex_string other_descriptor = ''deadbeef01020304''"
    "spec_hex_string example_descriptor = ''0011223344556677''"
    unfolding other_descriptor_def example_descriptor_def by code_simp+
  have ne: "other_descriptor \<noteq> example_descriptor"
    by (simp add: other_descriptor_def example_descriptor_def)
  have len: "length example_descriptor = 8" "length (replicate 8 (0 :: byte)) = 8"
    by (simp_all add: example_descriptor_def)
  from ensure_conflict [OF len g ne] show ?thesis
    by (auto simp add: hex example_world_def new_events_def)
qed


text \<open>The two ways in which \<open>e4crypt_policy_ensure\<close> succeeds.\<close>

lemma e4crypt_policy_ensure_applies:
  assumes "length D = 8"
    and "dirs w P = Some d" and "can_write d" and "can_open d" and "can_list d"
    and "length (counted (listing d)) \<le> 2"
    and "kernel_accepts w d (fixed_policy D)"
    and "\<forall>k. stored d = Some k \<longrightarrow> \<not> fixed_tuple k"
  shows "\<exists>evs. \<not> list_ex is_set_ioctl evs \<and>
           e4crypt_policy_ensure P D 8 w
           = Some (0, w\<lparr>dirs := (dirs w)(P \<mapsto> d\<lparr>stored := Some (fixed_policy D)\<rparr>),
                        trace := trace w @ evs
                          @ [Access P, Open P, OpenDir P,
                             CloseDir (fresh_stream (dir_streams w)),
                             IoctlSet (fresh_fd (fd_table w)) (fixed_policy D),
                             Close (fresh_fd (fd_table w)),
                             Log INFO (Policy_for_set_to P (spec_hex_string D))]\<rparr>)"
proof -
  from e4crypt_policy_ensure_unset [OF assms(2-4,8), of D]
  obtain evs where evs: "\<not> list_ex is_set_ioctl evs"
    and e: "e4crypt_policy_ensure P D 8 w = e4crypt_policy_set P D 8 (w\<lparr>trace := trace w @ evs\<rparr>)"
    by blast
  have "e4crypt_policy_set P D 8 (w\<lparr>trace := trace w @ evs\<rparr>)
        = Some (0, w\<lparr>dirs := (dirs w)(P \<mapsto> d\<lparr>stored := Some (fixed_policy D)\<rparr>),
                        trace := trace w @ evs
                          @ [Access P, Open P, OpenDir P,
                             CloseDir (fresh_stream (dir_streams w)),
                             IoctlSet (fresh_fd (fd_table w)) (fixed_policy D),
                             Close (fresh_fd (fd_table w)),
                             Log INFO (Policy_for_set_to P (spec_hex_string D))]\<rparr>)"
    using assms(1-7) by (simp add: e4crypt_policy_set_eq Let_def is_dir_empty_loop_le)
  with evs e show ?thesis by auto
qed

lemma fixed_policy_fixed [simp]: "fixed_tuple (fixed_policy D)"
  by (simp add: fixed_tuple_def fixed_policy_def)

lemma fixed_policy_descriptor [simp]:
  "length D = 8 \<Longrightarrow> master_key_descriptor (fixed_policy D) = D"
  by (simp add: fixed_policy_def)



text \<open>
  C3, as amended. For a descriptor of 8 bytes and a directory that is writable, can be
  opened and listed, passes the emptiness check and carries no recognised policy with
  another descriptor, on a kernel that accepts the set request, two calls of
  \<open>e4crypt_policy_ensure\<close> in sequence both return 0. The first call issues one set ioctl when the directory had no
  recognised policy and none when it had; the second call does the access check, the
  open, the get ioctl, the close and the log line "Found policy ... which matches
  expected value", and so issues no set ioctl.
\<close>

theorem ensure_idempotent:
  assumes "length D = 8"
    and "dirs w P = Some d" and "can_write d" and "can_open d" and "can_list d"
    and "length (counted (listing d)) \<le> 2"
    and "kernel_accepts w d (fixed_policy D)"
    and "\<forall>k. stored d = Some k \<and> fixed_tuple k \<longrightarrow> master_key_descriptor k = D"
  shows "\<exists>w1 w2. e4crypt_policy_ensure P D 8 w = Some (0, w1)
           \<and> e4crypt_policy_ensure P D 8 w1 = Some (0, w2)
           \<and> length (filter is_set_ioctl (new_events w w1))
               = (if \<exists>k. stored d = Some k \<and> fixed_tuple k then 0 else 1)
           \<and> new_events w1 w2
               = [Access P, Open P, IoctlGet (fresh_fd (fd_table w1)),
                  Close (fresh_fd (fd_table w1)),
                  Log INFO (Found_policy_which_matches (spec_hex_string D) P)]
           \<and> \<not> list_ex is_set_ioctl (new_events w1 w2)"
proof (cases "\<exists>k. stored d = Some k \<and> fixed_tuple k")
  case True
  then obtain k where k: "stored d = Some k" "fixed_tuple k" by blast
  with assms(8) have D: "master_key_descriptor k = D" by simp
  let ?w1 = "w\<lparr>trace := trace w
                     @ [Access P, Open P, IoctlGet (fresh_fd (fd_table w)),
                        Close (fresh_fd (fd_table w)),
                        Log INFO (Found_policy_which_matches (spec_hex_string D) P)]\<rparr>"
  let ?w2 = "?w1\<lparr>trace := trace ?w1
                     @ [Access P, Open P, IoctlGet (fresh_fd (fd_table ?w1)),
                        Close (fresh_fd (fd_table ?w1)),
                        Log INFO (Found_policy_which_matches (spec_hex_string D) P)]\<rparr>"
  have 1: "e4crypt_policy_ensure P D 8 w = Some (0, ?w1)"
    using e4crypt_policy_ensure_found [OF assms(2-4) k, of D] D assms(1) by simp
  have 2: "e4crypt_policy_ensure P D 8 ?w1 = Some (0, ?w2)"
    using e4crypt_policy_ensure_found [of ?w1 P d k D] assms(1-4) k D by simp
  have "length (filter is_set_ioctl (new_events w ?w1)) = 0"
    by simp
  moreover have "new_events ?w1 ?w2
               = [Access P, Open P, IoctlGet (fresh_fd (fd_table ?w1)),
                  Close (fresh_fd (fd_table ?w1)),
                  Log INFO (Found_policy_which_matches (spec_hex_string D) P)]"
    by (rule new_events_append)
  ultimately show ?thesis
    using 1 2 True by (intro exI [of _ ?w1] exI [of _ ?w2]) simp
next
  case False
  then have "\<forall>k. stored d = Some k \<longrightarrow> \<not> fixed_tuple k" by blast
  from e4crypt_policy_ensure_applies [OF assms(1-7) this]
  obtain evs where evs: "\<not> list_ex is_set_ioctl evs"
    and 1: "e4crypt_policy_ensure P D 8 w
           = Some (0, w\<lparr>dirs := (dirs w)(P \<mapsto> d\<lparr>stored := Some (fixed_policy D)\<rparr>),
                        trace := trace w @ evs
                          @ [Access P, Open P, OpenDir P,
                             CloseDir (fresh_stream (dir_streams w)),
                             IoctlSet (fresh_fd (fd_table w)) (fixed_policy D),
                             Close (fresh_fd (fd_table w)),
                             Log INFO (Policy_for_set_to P (spec_hex_string D))]\<rparr>)"
      (is "_ = Some (0, ?w1)")
    by blast
  let ?w2 = "?w1\<lparr>trace := trace ?w1
                     @ [Access P, Open P, IoctlGet (fresh_fd (fd_table ?w1)),
                        Close (fresh_fd (fd_table ?w1)),
                        Log INFO (Found_policy_which_matches (spec_hex_string D) P)]\<rparr>"
  have 2: "e4crypt_policy_ensure P D 8 ?w1 = Some (0, ?w2)"
    using e4crypt_policy_ensure_found [of ?w1 P "d\<lparr>stored := Some (fixed_policy D)\<rparr>"
        "fixed_policy D" D] assms(1,3,4)
    by simp
  have "filter is_set_ioctl evs = []"
    using evs by (simp add: list_ex_iff filter_empty_conv)
  then have "length (filter is_set_ioctl (new_events w ?w1)) = 1"
    by (simp add: new_events_def)
  moreover have "new_events ?w1 ?w2
               = [Access P, Open P, IoctlGet (fresh_fd (fd_table ?w1)),
                  Close (fresh_fd (fd_table ?w1)),
                  Log INFO (Found_policy_which_matches (spec_hex_string D) P)]"
    by (rule new_events_append)
  ultimately show ?thesis
    using 1 2 False by (intro exI [of _ ?w1] exI [of _ ?w2]) simp
qed

theorem ensure_idempotent_witness:
  "\<exists>w1 w2. e4crypt_policy_ensure ''/data/misc'' example_descriptor 8 (example_world empty_dir)
             = Some (0, w1)
         \<and> e4crypt_policy_ensure ''/data/misc'' example_descriptor 8 w1 = Some (0, w2)
         \<and> length (filter is_set_ioctl (new_events (example_world empty_dir) w1)) = 1
         \<and> new_events w1 w2
             = [Access ''/data/misc'', Open ''/data/misc'', IoctlGet (fresh_fd (fd_table w1)),
                Close (fresh_fd (fd_table w1)),
                Log INFO (Found_policy_which_matches ''0011223344556677'' ''/data/misc'')]"
proof -
  have hex: "spec_hex_string example_descriptor = ''0011223344556677''"
    unfolding example_descriptor_def by code_simp
  from ensure_idempotent [of example_descriptor "example_world empty_dir" "''/data/misc''"
      empty_dir]
  show ?thesis
    unfolding hex
    by (simp add: example_world_def empty_dir_def example_descriptor_def counted_def) blast
qed

text \<open>
  For every empty directory the statement of C3 fails: on an empty directory that the
  caller may not write, the first call already returns -1.
\<close>

theorem ensure_idempotent_counterexample:
  "length example_descriptor = 8
   \<and> listing (empty_dir\<lparr>can_write := False\<rparr>) = [''.'', ''..'']
   \<and> map_option fst
        (e4crypt_policy_ensure ''/data/misc'' example_descriptor 8
           (example_world (empty_dir\<lparr>can_write := False\<rparr>)))
       = Some (- 1)"
  by (simp add: e4crypt_policy_ensure_def e4crypt_policy_get_eq e4crypt_policy_set_eq Let_def
      EXT4_KEY_DESCRIPTOR_SIZE_def example_world_def empty_dir_def example_descriptor_def)

section \<open>What is written and what is accepted\<close>

lemma e4crypt_policy_set_events:
  assumes "e4crypt_policy_set P policy n w = Some (rc, w')"
  shows "\<exists>evs. trace w' = trace w @ evs
           \<and> (\<forall>fd eep. IoctlSet fd eep \<in> set evs \<longrightarrow> eep = fixed_policy policy)"
proof (cases "n = 8")
  case True
  with assms show ?thesis
    by (auto simp add: e4crypt_policy_set_eq Let_def split: option.splits if_splits)
next
  case False
  with assms show ?thesis
    by (auto simp add: wrong_length_eqs)
qed

lemma e4crypt_policy_get_events:
  assumes "e4crypt_policy_get P buf n w = Some (rc, b, w')"
  shows "\<exists>evs. trace w' = trace w @ evs \<and> (\<forall>fd eep. IoctlSet fd eep \<notin> set evs)"
proof (cases "n = 8")
  case True
  with assms show ?thesis
    by (auto simp add: e4crypt_policy_get_eq Let_def split: option.splits if_splits)
next
  case False
  with assms show ?thesis
    by (auto simp add: wrong_length_eqs)
qed

lemma e4crypt_policy_ensure_events:
  assumes "e4crypt_policy_ensure P policy n w = Some (rc, w')"
  shows "\<exists>evs. trace w' = trace w @ evs
           \<and> (\<forall>fd eep. IoctlSet fd eep \<in> set evs \<longrightarrow> eep = fixed_policy policy)"
proof (cases "n = 8")
  case False
  with assms show ?thesis
    by (auto simp add: wrong_length_eqs)
next
  case True
  show ?thesis
  proof (cases "e4crypt_policy_get P (replicate 8 0) 8 w")
    case None
    with assms True show ?thesis
      by (simp add: e4crypt_policy_ensure_def EXT4_KEY_DESCRIPTOR_SIZE_def)
  next
    case (Some r)
    then obtain rc1 ex w1 where g: "e4crypt_policy_get P (replicate 8 0) 8 w = Some (rc1, ex, w1)"
      by (cases r) auto
    from e4crypt_policy_get_events [OF g]
    obtain evs1 where evs1: "trace w1 = trace w @ evs1" "\<forall>fd eep. IoctlSet fd eep \<notin> set evs1"
      by blast
    show ?thesis
    proof (cases "rc1 = 0")
      case True
      with assms \<open>n = 8\<close> g evs1 show ?thesis
        by (auto simp add: e4crypt_policy_ensure_def EXT4_KEY_DESCRIPTOR_SIZE_def LOG_def
            record_event_def split: option.splits if_splits)
    next
      case False
      with assms \<open>n = 8\<close> g have "e4crypt_policy_set P policy 8 w1 = Some (rc, w')"
        by (simp add: e4crypt_policy_ensure_def EXT4_KEY_DESCRIPTOR_SIZE_def)
      from e4crypt_policy_set_events [OF this]
      obtain evs2 where "trace w' = trace w1 @ evs2"
        "\<forall>fd eep. IoctlSet fd eep \<in> set evs2 \<longrightarrow> eep = fixed_policy policy"
        by blast
      with evs1 show ?thesis
        by (intro exI [of _ "evs1 @ evs2"]) auto
    qed
  qed
qed

lemma new_events_trace: "trace w' = trace w @ evs \<Longrightarrow> new_events w w' = evs"
  by (simp add: new_events_def)

text \<open>
  C4. Every record that \<open>e4crypt_policy_set\<close> or \<open>e4crypt_policy_ensure\<close> passes to the
  set ioctl has version 0, contents mode 1 (AES-256-XTS), filenames mode 4 (AES-256-CTS)
  and flags 0. When the get ioctl of \<open>e4crypt_policy_get\<close> is reached and answers a
  record (the directory is writable and can be opened, the kernel holds a record for
  it), the call returns 0, with the record's descriptor in the buffer, if and only if the
  four fields of the record are that tuple; otherwise it returns -1 and leaves the buffer.
\<close>

theorem fixed_tuple_written_and_required:
  "(e4crypt_policy_set P policy n w = Some (rc, w') \<and> IoctlSet fd eep \<in> set (new_events w w')
      \<longrightarrow> version eep = 0 \<and> contents_encryption_mode eep = 1
          \<and> filenames_encryption_mode eep = 4 \<and> flags eep = 0)
   \<and> (e4crypt_policy_ensure P policy n w = Some (rc, w') \<and> IoctlSet fd eep \<in> set (new_events w w')
      \<longrightarrow> version eep = 0 \<and> contents_encryption_mode eep = 1
          \<and> filenames_encryption_mode eep = 4 \<and> flags eep = 0)
   \<and> (dirs w P = Some d \<and> can_write d \<and> can_open d \<and> stored d = Some k
        \<and> length (master_key_descriptor k) = 8 \<and> length buf = 8
      \<longrightarrow> (\<exists>rc' buf' w''. e4crypt_policy_get P buf 8 w = Some (rc', buf', w'')
             \<and> IoctlGet (fresh_fd (fd_table w)) \<in> set (new_events w w'')
             \<and> (rc' = 0 \<longleftrightarrow> version k = 0 \<and> contents_encryption_mode k = 1
                              \<and> filenames_encryption_mode k = 4 \<and> flags k = 0)
             \<and> (rc' = 0 \<and> buf' = master_key_descriptor k \<or> rc' = - 1 \<and> buf' = buf)))"
proof (intro conjI impI)
  assume "e4crypt_policy_set P policy n w = Some (rc, w') \<and> IoctlSet fd eep \<in> set (new_events w w')"
  with e4crypt_policy_set_events [of P policy n w rc w'] have "eep = fixed_policy policy"
    by (auto simp add: new_events_trace)
  then show "version eep = 0" "contents_encryption_mode eep = 1"
    "filenames_encryption_mode eep = 4" "flags eep = 0"
    by (simp_all add: fixed_policy_def)
next
  assume "e4crypt_policy_ensure P policy n w = Some (rc, w') \<and> IoctlSet fd eep \<in> set (new_events w w')"
  with e4crypt_policy_ensure_events [of P policy n w rc w'] have "eep = fixed_policy policy"
    by (auto simp add: new_events_trace)
  then show "version eep = 0" "contents_encryption_mode eep = 1"
    "filenames_encryption_mode eep = 4" "flags eep = 0"
    by (simp_all add: fixed_policy_def)
next
  assume "dirs w P = Some d \<and> can_write d \<and> can_open d \<and> stored d = Some k
        \<and> length (master_key_descriptor k) = 8 \<and> length buf = 8"
  then show "\<exists>rc' buf' w''. e4crypt_policy_get P buf 8 w = Some (rc', buf', w'')
             \<and> IoctlGet (fresh_fd (fd_table w)) \<in> set (new_events w w'')
             \<and> (rc' = 0 \<longleftrightarrow> version k = 0 \<and> contents_encryption_mode k = 1
                              \<and> filenames_encryption_mode k = 4 \<and> flags k = 0)
             \<and> (rc' = 0 \<and> buf' = master_key_descriptor k \<or> rc' = - 1 \<and> buf' = buf)"
    by (cases "fixed_tuple k") (simp_all add: e4crypt_policy_get_eq Let_def fixed_tuple_def)
qed

theorem fixed_tuple_written_and_required_witness:
  "(\<exists>w'. e4crypt_policy_set ''/data/misc'' example_descriptor 8 (example_world empty_dir)
            = Some (0, w')
        \<and> IoctlSet 3 (fixed_policy example_descriptor)
            \<in> set (new_events (example_world empty_dir) w'))
   \<and> (\<exists>w'. e4crypt_policy_ensure ''/data/misc'' example_descriptor 8 (example_world empty_dir)
            = Some (0, w')
        \<and> IoctlSet 3 (fixed_policy example_descriptor)
            \<in> set (new_events (example_world empty_dir) w'))
   \<and> version (fixed_policy example_descriptor) = 0
   \<and> contents_encryption_mode (fixed_policy example_descriptor) = 1
   \<and> filenames_encryption_mode (fixed_policy example_descriptor) = 4
   \<and> flags (fixed_policy example_descriptor) = 0
   \<and> (\<exists>w''. e4crypt_policy_get ''/data/misc'' example_descriptor 8
               (example_world (empty_dir\<lparr>stored := Some ((fixed_policy other_descriptor)
                                                          \<lparr>contents_encryption_mode := 2\<rparr>)\<rparr>))
             = Some (- 1, example_descriptor, w''))"
proof -
  let ?w = "example_world empty_dir"
  let ?d = "empty_dir\<lparr>stored := Some ((fixed_policy other_descriptor)
                                                          \<lparr>contents_encryption_mode := 2\<rparr>)\<rparr>"
  have fd: "fresh_fd [] = 3" "fresh_stream [] = 1"
    by (simp_all add: fresh_fd_def fresh_stream_def)
  have s: "\<exists>w'. e4crypt_policy_set ''/data/misc'' example_descriptor 8 ?w = Some (0, w')
        \<and> IoctlSet 3 (fixed_policy example_descriptor) \<in> set (new_events ?w w')"
    by (simp add: e4crypt_policy_set_eq Let_def example_world_def empty_dir_def
        example_descriptor_def new_events_def fd)
  have e: "\<exists>w'. e4crypt_policy_ensure ''/data/misc'' example_descriptor 8 ?w = Some (0, w')
        \<and> IoctlSet 3 (fixed_policy example_descriptor) \<in> set (new_events ?w w')"
    by (simp add: e4crypt_policy_ensure_def e4crypt_policy_get_eq e4crypt_policy_set_eq Let_def
        EXT4_KEY_DESCRIPTOR_SIZE_def example_world_def empty_dir_def
        example_descriptor_def new_events_def fd)
  from s obtain w1 where w1: "e4crypt_policy_set ''/data/misc'' example_descriptor 8 ?w = Some (0, w1)
        \<and> IoctlSet 3 (fixed_policy example_descriptor) \<in> set (new_events ?w w1)"
    by blast
  have d: "dirs (example_world ?d) ''/data/misc'' = Some ?d \<and> can_write ?d \<and> can_open ?d
      \<and> stored ?d = Some ((fixed_policy other_descriptor)\<lparr>contents_encryption_mode := 2\<rparr>)
      \<and> length (master_key_descriptor ((fixed_policy other_descriptor)\<lparr>contents_encryption_mode := 2\<rparr>)) = 8
      \<and> length example_descriptor = 8"
    by (simp add: example_world_def empty_dir_def fixed_policy_def other_descriptor_def
        example_descriptor_def)
  have t: "version (fixed_policy example_descriptor) = 0
      \<and> contents_encryption_mode (fixed_policy example_descriptor) = 1
      \<and> filenames_encryption_mode (fixed_policy example_descriptor) = 4
      \<and> flags (fixed_policy example_descriptor) = 0"
    using fixed_tuple_written_and_required
      [where P = "''/data/misc''" and policy = example_descriptor and n = 8 and w = ?w
        and rc = 0 and w' = w1 and fd = 3 and eep = "fixed_policy example_descriptor",
        THEN conjunct1, THEN mp, OF w1] .
  have "\<exists>rc' buf' w''. e4crypt_policy_get ''/data/misc'' example_descriptor 8 (example_world ?d)
             = Some (rc', buf', w'')
          \<and> rc' \<noteq> 0 \<and> (rc' = 0 \<and> buf' = take 8 other_descriptor \<or> rc' = - 1 \<and> buf' = example_descriptor)"
    using fixed_tuple_written_and_required
      [where P = "''/data/misc''" and w = "example_world ?d" and d = ?d
        and k = "(fixed_policy other_descriptor)\<lparr>contents_encryption_mode := 2\<rparr>"
        and buf = example_descriptor, THEN conjunct2, THEN conjunct2, THEN mp, OF d]
    by (simp add: fixed_policy_def) blast
  then have g: "\<exists>w''. e4crypt_policy_get ''/data/misc'' example_descriptor 8 (example_world ?d)
             = Some (- 1, example_descriptor, w'')"
    by auto
  from s e t g show ?thesis
    by simp
qed


section \<open>Handles\<close>

text \<open>
  \<open>e4crypt_policy_get\<close> and \<open>is_dir_empty\<close> return with the open descriptors and
  streams they were called with. \<open>e4crypt_policy_set\<close> does too, except on one return:
  after the emptiness check has failed, the descriptor of the directory is still open.
\<close>

lemma e4crypt_policy_get_releases:
  assumes "e4crypt_policy_get P buf n w = Some (rc, b, w')"
  shows "fd_table w' = fd_table w \<and> dir_streams w' = dir_streams w"
proof (cases "n = 8")
  case True
  with assms show ?thesis
    by (auto simp add: e4crypt_policy_get_eq Let_def split: option.splits if_splits)
next
  case False
  with assms show ?thesis
    by (auto simp add: wrong_length_eqs)
qed

lemma is_dir_empty_releases:
  assumes "is_dir_empty p w = Some (r, w')"
  shows "fd_table w' = fd_table w \<and> dir_streams w' = dir_streams w"
  using assms
  by (auto simp add: is_dir_empty_def sys_opendir_def sys_closedir_def record_event_def
      filter_fresh_stream split: option.splits if_splits)

lemma e4crypt_policy_set_releases:
  assumes "e4crypt_policy_set P policy n w = Some (rc, w')"
  shows "dir_streams w' = dir_streams w
         \<and> (fd_table w' = fd_table w
            \<or> rc = - 1 \<and> fd_table w' = (fresh_fd (fd_table w), P) # fd_table w
              \<and> last (trace w') = Log ERROR (Can_only_set_policy_on_an_empty_directory P))"
proof (cases "n = 8")
  case True
  with assms show ?thesis
    by (auto simp add: e4crypt_policy_set_eq Let_def split: option.splits if_splits)
next
  case False
  with assms show ?thesis
    by (auto simp add: wrong_length_eqs)
qed

text \<open>
  C6. Release on every exit path does not hold of \<open>e4crypt_policy_set\<close>: on a writable directory that
  holds a file, the call opens the directory (descriptor 3), finds it not empty, logs
  "Can only set policy on an empty directory" and returns -1 without closing the
  descriptor. The trace has no \<open>Close 3\<close> and the descriptor table, empty before, holds
  descriptor 3 after. The stream of the emptiness check is closed.
\<close>

theorem set_on_nonempty_directory_leaks_descriptor:
  "map_option (\<lambda>(rc, w'). (rc, fd_table w', dir_streams w', trace w'))
     (e4crypt_policy_set ''/data/misc'' example_descriptor 8
        (example_world (empty_dir\<lparr>listing := [''.'', ''..'', ''file'']\<rparr>)))
   = Some (- 1, [(3, ''/data/misc'')], [],
           [Access ''/data/misc'', Open ''/data/misc'', OpenDir ''/data/misc'', CloseDir 1,
            Log ERROR (Can_only_set_policy_on_an_empty_directory ''/data/misc'')])
   \<and> fd_table (example_world (empty_dir\<lparr>listing := [''.'', ''..'', ''file'']\<rparr>)) = []"
  by (simp add: e4crypt_policy_set_eq Let_def example_world_def empty_dir_def fresh_fd_def
      fresh_stream_def)

section \<open>The emptiness check on a listing\<close>

text \<open>
  C7. On a directory that can be listed and whose listing holds \<open>.\<close> and \<open>..\<close> once each,
  \<open>is_dir_empty\<close> returns true if and only if the listing has no name other than \<open>.\<close>,
  \<open>..\<close> and \<open>lost+found\<close>, and it releases the stream. The loop counts every name but
  \<open>lost+found\<close>, which is never counted, and stops at 3; \<open>.\<close> and \<open>..\<close> are the two
  counted names every such listing has.
\<close>

theorem is_dir_empty_counts:
  assumes "dirs w dirname = Some d" and "can_list d"
    and "count_list (listing d) ''.'' = 1" and "count_list (listing d) ''..'' = 1"
  shows "\<exists>w'. is_dir_empty dirname w
               = Some (if set (listing d) \<subseteq> {''.'', ''..'', ''lost+found''} then 1 else 0, w')
           \<and> dir_streams w' = dir_streams w
           \<and> is_dir_empty_loop 0 (listing d) = min 3 (int (length (counted (listing d))))
           \<and> length (counted (listing d))
               = 2 + length (filter (\<lambda>n. n \<notin> {''.'', ''..'', ''lost+found''}) (listing d))"
proof -
  have "is_dir_empty_loop 0 (listing d) \<le> 2
        \<longleftrightarrow> set (listing d) \<subseteq> {''.'', ''..'', ''lost+found''}"
    using counted_dots [OF assms(3,4)] by (simp only: is_dir_empty_loop_le)
  moreover have "is_dir_empty_loop 0 (listing d) = min 3 (int (length (counted (listing d))))"
    by (simp add: is_dir_empty_loop_eq)
  moreover have "length (counted (listing d))
               = 2 + length (filter (\<lambda>n. n \<notin> {''.'', ''..'', ''lost+found''}) (listing d))"
    using assms(3,4) by (simp add: length_counted)
  ultimately show ?thesis
    using assms(1,2) by (simp add: is_dir_empty_eq)
qed

theorem is_dir_empty_counts_witness:
  "(\<exists>w'. is_dir_empty ''/data/misc''
            (example_world (empty_dir\<lparr>listing := [''.'', ''lost+found'', ''..'']\<rparr>))
          = Some (1, w'))
   \<and> (\<exists>w'. is_dir_empty ''/data/misc''
            (example_world (empty_dir\<lparr>listing := [''.'', ''..'', ''lost+found'', ''file'']\<rparr>))
          = Some (0, w'))"
  using is_dir_empty_counts
      [of "example_world (empty_dir\<lparr>listing := [''.'', ''lost+found'', ''..'']\<rparr>)"
        "''/data/misc''" "empty_dir\<lparr>listing := [''.'', ''lost+found'', ''..'']\<rparr>"]
    is_dir_empty_counts
      [of "example_world (empty_dir\<lparr>listing := [''.'', ''..'', ''lost+found'', ''file'']\<rparr>)"
        "''/data/misc''" "empty_dir\<lparr>listing := [''.'', ''..'', ''lost+found'', ''file'']\<rparr>"]
  by (simp add: example_world_def empty_dir_def counted_def) blast

end
